theory Spec2Isabelle
  imports Main
begin

section \<open>Route descriptors\<close>

text \<open>
  The test author's values that the stub only stores and hands on (loader and action functions,
  boundary components, React nodes, handles, loader data) are opaque: one type variable \<open>'v\<close>
  stands for them. An optional property is an \<open>option\<close>, \<open>None\<close> being \<open>undefined\<close>.
\<close>

record 'v BaseMockRouteObject =
  caseSensitive :: "bool option"
  path :: string
  element :: "'v option"
  loader :: "'v option"
  action :: "'v option"
  links :: "'v option"
  meta :: "'v option"
  handle :: "'v option"
  CatchBoundary :: "'v option"
  ErrorBoundary :: "'v option"
  unstable_shouldReload :: "'v option"

text \<open>
  \<open>MockRouteObject\<close> is the union of the two route shapes: an index route (\<open>index: true\<close>, no
  children) and a non-index route (\<open>index\<close> false or absent, \<open>children\<close> optional). The
  constructor is the \<open>index\<close> discriminant.
\<close>

datatype 'v MockRouteObject =
  MockIndexRouteObject "'v BaseMockRouteObject"
| MockNonIndexRouteObject "'v BaseMockRouteObject" "'v MockRouteObject list option"

primrec base :: "'v MockRouteObject \<Rightarrow> 'v BaseMockRouteObject" where
  "base (MockIndexRouteObject b) = b"
| "base (MockNonIndexRouteObject b cs) = b"

primrec children :: "'v MockRouteObject \<Rightarrow> 'v MockRouteObject list option" where
  "children (MockIndexRouteObject b) = None"
| "children (MockNonIndexRouteObject b cs) = cs"

text \<open>Every Route Node of a tree: the node itself and, recursively, the nodes of its children.\<close>

primrec nodes :: "'v MockRouteObject \<Rightarrow> 'v MockRouteObject list" where
  "nodes (MockIndexRouteObject b) = [MockIndexRouteObject b]"
| "nodes (MockNonIndexRouteObject b cs) =
     MockNonIndexRouteObject b cs #
     (case map_option (map nodes) cs of None \<Rightarrow> [] | Some nss \<Rightarrow> concat nss)"

definition allNodes :: "'v MockRouteObject list \<Rightarrow> 'v MockRouteObject list" where
  "allNodes routes = concat (map nodes routes)"

text \<open>JavaScript truthiness \<open>!!x\<close> of an optional function or component: only \<open>undefined\<close> is falsy.\<close>

definition truthy :: "'v option \<Rightarrow> bool" where
  "truthy x = (case x of None \<Rightarrow> False | Some _ \<Rightarrow> True)"

section \<open>Objects used as dictionaries\<close>

text \<open>
  An object created by the literal \<open>{}\<close> and then written by \<open>obj[key] = value\<close>, where
  every value written is itself an object: its own properties, and the prototype a write has
  given it (\<open>None\<close>: still \<open>Object.prototype\<close>).
\<close>

record 'a js_object =
  own :: "string \<rightharpoonup> 'a"
  proto :: "'a option"

definition emptyObject :: "'a js_object" where
  "emptyObject = \<lparr> own = Map.empty, proto = None \<rparr>"

text \<open>
  \<open>obj[key] = value\<close>. The key \<open>__proto__\<close> is an accessor inherited from
  \<open>Object.prototype\<close>: writing an object to it replaces the prototype of \<open>obj\<close> and creates no
  own property. Every other key is written as an own property, since every other property that
  can be inherited here is a writable data property.
\<close>

definition setProperty :: "'a js_object \<Rightarrow> string \<Rightarrow> 'a \<Rightarrow> 'a js_object" where
  "setProperty obj key v =
     (if key = ''__proto__'' then obj\<lparr>proto := Some v\<rparr>
      else obj\<lparr>own := (own obj)(key \<mapsto> v)\<rparr>)"

section \<open>Manifest and route modules\<close>

record EntryRoute =
  entry_id :: string
  entry_path :: string
  hasAction :: bool
  hasLoader :: bool
  module :: string
  hasCatchBoundary :: bool
  hasErrorBoundary :: bool

record ManifestEntry =
  entry_imports :: "string list"
  entry_module :: string

type_synonym RouteManifest = "EntryRoute js_object"

text \<open>
  \<open>'r\<close> is how the manifest holds its \<open>routes\<close> object: as the object itself, or as its
  address where objects live in a store.
\<close>

record 'r AssetsManifest =
  routes :: 'r
  entry :: ManifestEntry
  url :: string
  version :: string

text \<open>The object written for one route by the callback of \<open>createManifest\<close>.\<close>

definition manifestEntryOf :: "'v MockRouteObject \<Rightarrow> EntryRoute" where
  "manifestEntryOf route =
     \<lparr> entry_id = path (base route),
       entry_path = path (base route),
       hasAction = truthy (action (base route)),
       hasLoader = truthy (loader (base route)),
       module = '''',
       hasCatchBoundary = truthy (CatchBoundary (base route)),
       hasErrorBoundary = truthy (ErrorBoundary (base route)) \<rparr>"

text \<open>
  \<open>routes.reduce((manifest, route) => { manifest[route.path] = ...; return manifest }, {})\<close>:
  a left fold over the array it is given, starting from the empty object, with one property
  write for each route.
\<close>

definition createManifest :: "'v MockRouteObject list \<Rightarrow> RouteManifest AssetsManifest" where
  "createManifest rs =
     \<lparr> routes = foldl (\<lambda>manifest route.
                         setProperty manifest (path (base route)) (manifestEntryOf route))
                  emptyObject rs,
       entry = \<lparr> entry_imports = [], entry_module = '''' \<rparr>,
       url = '''',
       version = '''' \<rparr>"

text \<open>\<open><>{route.element}</>\<close>: a fragment whose only child is the route's element.\<close>

datatype 'v ReactNode = Fragment "'v option"

record 'v RouteModule =
  mod_CatchBoundary :: "'v option"
  mod_ErrorBoundary :: "'v option"
  default_export :: "unit \<Rightarrow> 'v ReactNode"
  mod_handle :: "'v option"
  mod_links :: "'v option"
  mod_meta :: "'v option"
  mod_unstable_shouldReload :: "'v option"

definition routeModuleOf :: "'v MockRouteObject \<Rightarrow> 'v RouteModule" where
  "routeModuleOf route =
     \<lparr> mod_CatchBoundary = CatchBoundary (base route),
       mod_ErrorBoundary = ErrorBoundary (base route),
       default_export = (\<lambda>_. Fragment (element (base route))),
       mod_handle = handle (base route),
       mod_links = links (base route),
       mod_meta = meta (base route),
       mod_unstable_shouldReload = unstable_shouldReload (base route) \<rparr>"

type_synonym 'v RouteModules = "'v RouteModule js_object"

definition createRouteModules :: "'v MockRouteObject list \<Rightarrow> 'v RouteModules" where
  "createRouteModules rs =
     foldl (\<lambda>modules route. setProperty modules (path (base route)) (routeModuleOf route))
       emptyObject rs"

section \<open>Rendering context\<close>

text \<open>
  A location of the router. Its \<open>state\<close> and \<open>key\<close> are never read by this code and are
  left out.
\<close>

record Location =
  pathname :: string
  search :: string
  hash :: string

record 'v AppState =
  trackBoundaries :: bool
  trackCatchBoundaries :: bool
  catchBoundaryRouteId :: "string option"
  renderBoundaryRouteId :: "string option"
  loaderBoundaryRouteId :: "string option"
  error :: "'v option"
  catch :: "'v option"

type_synonym 'v RouteData = "string \<rightharpoonup> 'v"

text \<open>
  \<open>'r\<close> and \<open>'ms\<close> are how the context holds the manifest's routes object and the module
  map: as the objects themselves, or as their addresses where objects live in a store.
\<close>

record ('v, 'm, 'r, 'ms) EntryContext =
  actionData :: "'v RouteData option"
  appState :: "'v AppState"
  matches :: 'm
  routeData :: "'v RouteData"
  manifest :: "'r AssetsManifest"
  routeModules :: 'ms

text \<open>
  \<open>matchRoutes\<close> is the router library's path matcher; it is a parameter, and \<open>'m\<close> is whatever
  it returns (a list of matches, or \<open>null\<close>).
\<close>

definition createRemixContext ::
  "('v MockRouteObject list \<Rightarrow> string \<Rightarrow> 'm) \<Rightarrow> 'v MockRouteObject list \<Rightarrow> Location \<Rightarrow>
   'v RouteData \<Rightarrow> 'v RouteData option \<Rightarrow>
   ('v, 'm, RouteManifest, 'v RouteModules) EntryContext" where
  "createRemixContext matchRoutes rs currentLocation initialLoaderData initialActionData =
     (let matches = matchRoutes rs (pathname currentLocation) in
      \<lparr> actionData = initialActionData,
        appState = \<lparr> trackBoundaries = True,
                     trackCatchBoundaries = True,
                     catchBoundaryRouteId = None,
                     renderBoundaryRouteId = None,
                     loaderBoundaryRouteId = None,
                     error = None,
                     catch = None \<rparr>,
        matches = matches,
        routeData = initialLoaderData,
        manifest = createManifest rs,
        routeModules = createRouteModules rs \<rparr>)"

section \<open>Network interceptor\<close>

text \<open>
  A JavaScript value as the interceptor tells values apart: an instance of \<open>Response\<close>, whose
  \<open>status\<close> is a number, or any other value, which may still carry a \<open>status\<close> property of
  its own. The rest of the value is opaque.
\<close>

datatype 'v js_value =
  ResponseInstance nat 'v
| OtherValue "nat option" 'v

text \<open>How a promise ends: fulfilled with a value, rejected with a thrown value, or never settled.\<close>

datatype 'v settled = Fulfilled "'v js_value" | Rejected "'v js_value" | Pending

text \<open>
  Requests run loaders, actions and the network, so every asynchronous call takes the state \<open>'w\<close>
  of the outside world and returns the state it leaves behind.
\<close>

type_synonym ('v, 'w) async = "'w \<Rightarrow> 'v settled \<times> 'w"

type_synonym 'v RequestInit = "string \<rightharpoonup> 'v"

type_synonym ('i, 'v, 'w) fetch = "'i \<Rightarrow> 'v RequestInit option \<Rightarrow> ('v, 'w) async"

text \<open>
  The \<open>Request\<close> constructor is the platform's: it returns a request \<open>'q\<close> or throws
  (\<open>Inl\<close>), and may touch the outside world (it consumes the body of a request given as input).
\<close>

type_synonym ('i, 'q, 'v, 'w) request_ctor =
  "'i \<Rightarrow> 'v RequestInit \<Rightarrow> 'w \<Rightarrow> ('v js_value + 'q) \<times> 'w"

record ('q, 'v, 'w) StaticHandler =
  queryRoute :: "'q \<Rightarrow> ('v, 'w) async"

text \<open>
  The body of the function that \<open>monkeyPatchFetch\<close> stores in \<open>window.fetch\<close>, with the two
  variables it closes over (\<open>handler\<close>, \<open>originalFetch\<close>) as parameters. \<open>init\<close> defaults to
  the empty object; the request is built before the \<open>try\<close> block.
\<close>

definition patchedFetch ::
  "('i, 'q, 'v, 'w) request_ctor \<Rightarrow> ('q, 'v, 'w) StaticHandler \<Rightarrow> ('i, 'v, 'w) fetch \<Rightarrow>
   ('i, 'v, 'w) fetch" where
  "patchedFetch newRequest handler originalFetch input init_arg w =
     (let init = (case init_arg of None \<Rightarrow> Map.empty | Some i \<Rightarrow> i) in
      case newRequest input init w of
        (Inl thrown, w1) \<Rightarrow> (Rejected thrown, w1)
      | (Inr request, w1) \<Rightarrow>
          (case queryRoute handler request w1 of
             (Fulfilled response, w2) \<Rightarrow> (Fulfilled response, w2)
           | (Pending, w2) \<Rightarrow> (Pending, w2)
           | (Rejected err, w2) \<Rightarrow>
               (case err of
                  ResponseInstance status body \<Rightarrow>
                    if status = 404 \<or> status = 405 then originalFetch input (Some init) w2
                    else (Rejected err, w2)
                | OtherValue status_property body \<Rightarrow> (Rejected err, w2))))"

text \<open>
  What the process-wide slot \<open>window.fetch\<close> can hold: a function this code did not create
  (the platform's fetch, or a test's own mock), or a closure created by \<open>monkeyPatchFetch\<close>,
  which holds its handler and the function that was in the slot when it was created.
\<close>

datatype ('i, 'q, 'v, 'w) fetch_fn =
  ExternalFetch "('i, 'v, 'w) fetch"
| PatchedFetch "('q, 'v, 'w) StaticHandler" "('i, 'q, 'v, 'w) fetch_fn"

text \<open>Calling the function held in the slot.\<close>

primrec callFetch ::
  "('i, 'q, 'v, 'w) fetch_fn \<Rightarrow> ('i, 'q, 'v, 'w) request_ctor \<Rightarrow> ('i, 'v, 'w) fetch" where
  "callFetch (ExternalFetch f) newRequest = f"
| "callFetch (PatchedFetch handler originalFetch) newRequest =
     patchedFetch newRequest handler (callFetch originalFetch newRequest)"

record ('i, 'q, 'v, 'w) window =
  window_fetch :: "('i, 'q, 'v, 'w) fetch_fn"

definition monkeyPatchFetch ::
  "('q, 'v, 'w) StaticHandler \<Rightarrow> ('i, 'q, 'v, 'w) window \<Rightarrow> ('i, 'q, 'v, 'w) window" where
  "monkeyPatchFetch handler win =
     (let originalFetch = window_fetch win in
      win\<lparr>window_fetch := PatchedFetch handler originalFetch\<rparr>)"

text \<open>The functions captured below the one in the slot, nearest first, and how many there are.\<close>

primrec captured :: "('i, 'q, 'v, 'w) fetch_fn \<Rightarrow> ('i, 'q, 'v, 'w) fetch_fn list" where
  "captured (ExternalFetch f) = []"
| "captured (PatchedFetch handler originalFetch) = originalFetch # captured originalFetch"

primrec depth :: "('i, 'q, 'v, 'w) fetch_fn \<Rightarrow> nat" where
  "depth (ExternalFetch f) = 0"
| "depth (PatchedFetch handler originalFetch) = Suc (depth originalFetch)"

primrec isPatched :: "('i, 'q, 'v, 'w) fetch_fn \<Rightarrow> bool" where
  "isPatched (ExternalFetch f) = False"
| "isPatched (PatchedFetch handler originalFetch) = True"

section \<open>The context builder on a store\<close>

text \<open>
  The two accumulators of \<open>reduce\<close> are objects that the builder creates and then writes to.
  Here they live in a store, so that what a call reads, what it writes and what it returns can
  be told apart: a call runs in a program state, made of the store of such objects and the
  window, and returns the state it leaves. Values that the code only creates and never writes
  to again (the entries, the modules, the context record) stay values.
\<close>

datatype 'v cell = ManifestCell RouteManifest | ModulesCell "'v RouteModules"

record ('i, 'q, 'v, 'w) js_state =
  heap :: "'v cell list"
  globals :: "('i, 'q, 'v, 'w) window"

text \<open>A new object gets the next free address; the addresses in use are those below it.\<close>

definition allocate ::
  "'v cell \<Rightarrow> ('i, 'q, 'v, 'w) js_state \<Rightarrow> nat \<times> ('i, 'q, 'v, 'w) js_state" where
  "allocate c st = (length (heap st), st\<lparr>heap := heap st @ [c]\<rparr>)"

text \<open>\<open>manifest[key] = value\<close> and \<open>modules[key] = value\<close> on the object at an address.\<close>

definition writeManifest ::
  "nat \<Rightarrow> string \<Rightarrow> EntryRoute \<Rightarrow> ('i, 'q, 'v, 'w) js_state \<Rightarrow> ('i, 'q, 'v, 'w) js_state" where
  "writeManifest a key v st =
     (if a < length (heap st) then
        (case heap st ! a of
           ManifestCell obj \<Rightarrow> st\<lparr>heap := (heap st)[a := ManifestCell (setProperty obj key v)]\<rparr>
         | ModulesCell obj \<Rightarrow> st)
      else st)"

definition writeModules ::
  "nat \<Rightarrow> string \<Rightarrow> 'v RouteModule \<Rightarrow> ('i, 'q, 'v, 'w) js_state \<Rightarrow> ('i, 'q, 'v, 'w) js_state" where
  "writeModules a key v st =
     (if a < length (heap st) then
        (case heap st ! a of
           ModulesCell obj \<Rightarrow> st\<lparr>heap := (heap st)[a := ModulesCell (setProperty obj key v)]\<rparr>
         | ManifestCell obj \<Rightarrow> st)
      else st)"

text \<open>
  \<open>createManifest\<close>: the literal \<open>{}\<close> creates the accumulator, the callback writes to it
  once for each route, and \<open>reduce\<close> returns it.
\<close>

definition createManifest_st ::
  "'v MockRouteObject list \<Rightarrow> ('i, 'q, 'v, 'w) js_state \<Rightarrow>
   nat AssetsManifest \<times> ('i, 'q, 'v, 'w) js_state" where
  "createManifest_st rs st =
     (case allocate (ManifestCell emptyObject) st of
        (manifest', st1) \<Rightarrow>
          (\<lparr> routes = manifest',
             entry = \<lparr> entry_imports = [], entry_module = '''' \<rparr>,
             url = '''',
             version = '''' \<rparr>,
           foldl (\<lambda>st route. writeManifest manifest' (path (base route)) (manifestEntryOf route) st)
             st1 rs))"

definition createRouteModules_st ::
  "'v MockRouteObject list \<Rightarrow> ('i, 'q, 'v, 'w) js_state \<Rightarrow> nat \<times> ('i, 'q, 'v, 'w) js_state" where
  "createRouteModules_st rs st =
     (case allocate (ModulesCell emptyObject) st of
        (modules, st1) \<Rightarrow>
          (modules,
           foldl (\<lambda>st route. writeModules modules (path (base route)) (routeModuleOf route) st)
             st1 rs))"

text \<open>
  \<open>createRemixContext\<close>: the matches first, then the properties of the returned literal in
  their order, so the manifest is built before the module map.
\<close>

definition createRemixContext_st ::
  "('v MockRouteObject list \<Rightarrow> string \<Rightarrow> 'm) \<Rightarrow> 'v MockRouteObject list \<Rightarrow> Location \<Rightarrow>
   'v RouteData \<Rightarrow> 'v RouteData option \<Rightarrow> ('i, 'q, 'v, 'w) js_state \<Rightarrow>
   ('v, 'm, nat, nat) EntryContext \<times> ('i, 'q, 'v, 'w) js_state" where
  "createRemixContext_st matchRoutes rs currentLocation initialLoaderData initialActionData st =
     (let matches = matchRoutes rs (pathname currentLocation) in
      case createManifest_st rs st of
        (manifest', st1) \<Rightarrow>
          (case createRouteModules_st rs st1 of
             (modules, st2) \<Rightarrow>
               (\<lparr> actionData = initialActionData,
                  appState = \<lparr> trackBoundaries = True,
                               trackCatchBoundaries = True,
                               catchBoundaryRouteId = None,
                               renderBoundaryRouteId = None,
                               loaderBoundaryRouteId = None,
                               error = None,
                               catch = None \<rparr>,
                  matches = matches,
                  routeData = initialLoaderData,
                  manifest = manifest',
                  routeModules = modules \<rparr>,
                st2)))"

text \<open>
  The rendering context as a reader finds it in a state: the context with the two objects in
  place of their addresses (\<open>None\<close> if an address holds no such object).
\<close>

definition contextAt ::
  "('i, 'q, 'v, 'w) js_state \<Rightarrow> ('v, 'm, nat, nat) EntryContext \<Rightarrow>
   ('v, 'm, RouteManifest, 'v RouteModules) EntryContext option" where
  "contextAt st ctx =
     (if routes (manifest ctx) < length (heap st) \<and> routeModules ctx < length (heap st) then
        (case (heap st ! routes (manifest ctx), heap st ! routeModules ctx) of
           (ManifestCell m, ModulesCell ms) \<Rightarrow>
             Some \<lparr> actionData = actionData ctx,
                    appState = appState ctx,
                    matches = matches ctx,
                    routeData = routeData ctx,
                    manifest = \<lparr> routes = m,
                                 entry = entry (manifest ctx),
                                 url = url (manifest ctx),
                                 version = version (manifest ctx) \<rparr>,
                    routeModules = ms \<rparr>
         | _ \<Rightarrow> None)
      else None)"

section \<open>Stub component\<close>

record PartialLocation =
  partial_pathname :: "string option"
  partial_search :: "string option"
  partial_hash :: "string option"

datatype InitialEntry = EntryPath string | EntryLocation PartialLocation

record 'v RemixStubOptions =
  initialEntries :: "InitialEntry list option"
  initialLoaderData :: "'v RouteData option"
  initialActionData :: "'v RouteData option"
  initialIndex :: "int option"

datatype Action = Pop | Push | Replace

record Update =
  update_action :: Action
  location :: Location

text \<open>
  The library functions the component calls. The history object \<open>'hist\<close> is the library's; the
  component reads its \<open>action\<close> and \<open>location\<close> and hands the object on as the navigator.
\<close>

record ('v, 'm, 'q, 'w, 'hist) externals =
  createMemoryHistory :: "InitialEntry list \<Rightarrow> int option \<Rightarrow> 'hist"
  history_action :: "'hist \<Rightarrow> Action"
  history_location :: "'hist \<Rightarrow> Location"
  matchRoutes :: "'v MockRouteObject list \<Rightarrow> string \<Rightarrow> 'm"
  createStaticHandler :: "'v MockRouteObject list \<Rightarrow> ('q, 'v, 'w) StaticHandler"

text \<open>
  What React keeps for one mounted instance between renders: the value of \<open>historyRef\<close> and
  the state of the reducer (\<open>None\<close> before the first render).
\<close>

record 'hist hooks =
  historyRef :: "'hist option"
  reducerState :: "Update option"

definition freshHooks :: "'hist hooks" where
  "freshHooks = \<lparr> historyRef = None, reducerState = None \<rparr>"

text \<open>The element the component returns: the props given to \<open>RemixEntry\<close>.\<close>

record ('v, 'm, 'hist) RemixEntryProps =
  props_context :: "('v, 'm, RouteManifest, 'v RouteModules) EntryContext"
  props_action :: Action
  props_location :: Location
  navigator :: "'hist"

text \<open>
  One run of the body of \<open>RemixStub\<close> for the component made by \<open>createRemixStub(routes)\<close>:
  from the props, the instance's hooks and the window, to the element, the hooks and the window
  after the run. The reducer \<open>(_, update) => update\<close> takes its initial state on the first
  render only.
\<close>

definition RemixStub ::
  "('v, 'm, 'q, 'w, 'hist) externals \<Rightarrow> 'v MockRouteObject list \<Rightarrow> 'v RemixStubOptions \<Rightarrow>
   'hist hooks \<Rightarrow> ('i, 'q, 'v, 'w) window \<Rightarrow>
   ('v, 'm, 'hist) RemixEntryProps \<times> 'hist hooks \<times> ('i, 'q, 'v, 'w) window" where
  "RemixStub ext rs props hs win =
     (let initialEntries' = (case initialEntries props of None \<Rightarrow> [EntryPath ''/''] | Some es \<Rightarrow> es);
          initialLoaderData' = (case initialLoaderData props of None \<Rightarrow> Map.empty | Some d \<Rightarrow> d);
          initialActionData' = initialActionData props;
          initialIndex' = initialIndex props;
          history = (case historyRef hs of
                       None \<Rightarrow> createMemoryHistory ext initialEntries' initialIndex'
                     | Some h \<Rightarrow> h);
          state = (case reducerState hs of
                     None \<Rightarrow> \<lparr> update_action = history_action ext history,
                               location = history_location ext history \<rparr>
                   | Some s \<Rightarrow> s);
          remixContext = createRemixContext (matchRoutes ext) rs (location state)
                           initialLoaderData' initialActionData';
          handler = createStaticHandler ext rs;
          win' = monkeyPatchFetch handler win
      in (\<lparr> props_context = remixContext,
            props_action = update_action state,
            props_location = location state,
            navigator = history \<rparr>,
          \<lparr> historyRef = Some history, reducerState = Some state \<rparr>,
          win'))"

text \<open>
  The system: the window and the mounted instances, each with the routes of its component, its
  last props and its hooks. A mounted instance listens to its history (the layout effect runs
  after the first render and is cleaned up on unmount), so a navigation reaches exactly the
  mounted instances.
\<close>

record ('v, 'hist) stub_instance =
  inst_routes :: "'v MockRouteObject list"
  inst_props :: "'v RemixStubOptions"
  inst_hooks :: "'hist hooks"

record ('i, 'q, 'v, 'w, 'hist) system =
  win :: "('i, 'q, 'v, 'w) window"
  stubs :: "nat \<rightharpoonup> ('v, 'hist) stub_instance"

datatype 'v event =
  Mount nat "'v MockRouteObject list" "'v RemixStubOptions"
| Rerender nat "'v RemixStubOptions"
| Navigate nat Update
| Unmount nat

text \<open>Render instance \<open>i\<close> with the given hooks and store what the render leaves.\<close>

definition render ::
  "('v, 'm, 'q, 'w, 'hist) externals \<Rightarrow> nat \<Rightarrow> 'v MockRouteObject list \<Rightarrow> 'v RemixStubOptions \<Rightarrow>
   'hist hooks \<Rightarrow> ('i, 'q, 'v, 'w, 'hist) system \<Rightarrow> ('i, 'q, 'v, 'w, 'hist) system" where
  "render ext i rs props hs s =
     (case RemixStub ext rs props hs (win s) of
        (el, hs', win') \<Rightarrow>
          \<lparr> win = win',
            stubs = (stubs s)(i \<mapsto> \<lparr> inst_routes = rs, inst_props = props, inst_hooks = hs' \<rparr>) \<rparr>)"

fun step ::
  "('v, 'm, 'q, 'w, 'hist) externals \<Rightarrow> 'v event \<Rightarrow> ('i, 'q, 'v, 'w, 'hist) system \<Rightarrow>
   ('i, 'q, 'v, 'w, 'hist) system" where
  "step ext (Mount i rs props) s =
     (case stubs s i of
        None \<Rightarrow> render ext i rs props freshHooks s
      | Some inst \<Rightarrow> s)"
| "step ext (Rerender i props) s =
     (case stubs s i of
        None \<Rightarrow> s
      | Some inst \<Rightarrow> render ext i (inst_routes inst) props (inst_hooks inst) s)"
| "step ext (Navigate i update) s =
     (case stubs s i of
        None \<Rightarrow> s
      | Some inst \<Rightarrow>
          render ext i (inst_routes inst) (inst_props inst)
            ((inst_hooks inst)\<lparr>reducerState := Some update\<rparr>) s)"
| "step ext (Unmount i) s = s\<lparr>stubs := (stubs s)(i := None)\<rparr>"

definition run ::
  "('v, 'm, 'q, 'w, 'hist) externals \<Rightarrow> 'v event list \<Rightarrow> ('i, 'q, 'v, 'w, 'hist) system \<Rightarrow>
   ('i, 'q, 'v, 'w, 'hist) system" where
  "run ext es s = foldl (\<lambda>s e. step ext e s) s es"

subsection \<open>History adapter\<close>

text \<open>
  Modelled from the spec: the history object. \<open>createMemoryHistory\<close> belongs to the history
  library and is not part of the sources; the specification's History Adapter accepts an ordered
  sequence of initial locations and an optional starting index.
\<close>

record MemoryHistory =
  hist_entries :: "InitialEntry list"
  hist_index :: int

text \<open>
  Modelled from the spec: creation of the History Adapter, which is missing from the sources.
  The starting index defaults to the last entry.
\<close>

definition createMemoryHistory_spec :: "InitialEntry list \<Rightarrow> int option \<Rightarrow> MemoryHistory" where
  "createMemoryHistory_spec es i =
     \<lparr> hist_entries = es,
       hist_index = (case i of None \<Rightarrow> int (length es) - 1 | Some k \<Rightarrow> k) \<rparr>"

text \<open>
  Modelled from the spec: the current location the History Adapter exposes, which is missing
  from the sources: the entry at the index. The specification does not say what the current
  location is when the index names no entry; the result is \<open>None\<close> there.
\<close>

definition currentEntry :: "MemoryHistory \<Rightarrow> InitialEntry option" where
  "currentEntry h =
     (if 0 \<le> hist_index h \<and> hist_index h < int (length (hist_entries h))
      then Some (hist_entries h ! nat (hist_index h)) else None)"

section \<open>Fixtures and auxiliary notions used in the statements\<close>

text \<open>A route base that declares only a path.\<close>

definition plainRoute :: "string \<Rightarrow> 'v BaseMockRouteObject" where
  "plainRoute p =
     \<lparr> caseSensitive = None, path = p, element = None, loader = None, action = None,
       links = None, meta = None, handle = None, CatchBoundary = None, ErrorBoundary = None,
       unstable_shouldReload = None \<rparr>"

text \<open>The last route of the array that declares path \<open>p\<close>, if there is one.\<close>

definition lastWithPath :: "string \<Rightarrow> 'v MockRouteObject list \<Rightarrow> 'v MockRouteObject option" where
  "lastWithPath p rs =
     (let declaring = filter (\<lambda>r. path (base r) = p) rs
      in if declaring = [] then None else Some (last declaring))"


text \<open>A request constructor, a handler, a window and library functions to run the model on.\<close>

definition demoRequest :: "(string, string, unit, nat) request_ctor" where
  "demoRequest input init w = (Inr input, w)"

definition demoHandler :: "(string, unit, nat) StaticHandler" where
  "demoHandler =
     \<lparr> queryRoute = (\<lambda>request w.
         (if request = ''/mock'' then Fulfilled (ResponseInstance 200 ())
          else if request = ''/elsewhere'' then Rejected (ResponseInstance 404 ())
          else if request = ''/broken'' then Rejected (ResponseInstance 500 ())
          else Rejected (OtherValue (Some 404) ()), Suc w)) \<rparr>"

definition demoWindow :: "(string, string, unit, nat) window" where
  "demoWindow =
     \<lparr> window_fetch = ExternalFetch (\<lambda>input init w. (Fulfilled (ResponseInstance 204 ()), w + 10)) \<rparr>"

text \<open>A program state whose store already holds an object.\<close>

definition demoState :: "(string, string, unit, nat) js_state" where
  "demoState =
     \<lparr> heap = [ManifestCell (setProperty emptyObject ''/old'' (manifestEntryOf
                 (MockIndexRouteObject (plainRoute ''/old'') :: unit MockRouteObject)))],
       globals = demoWindow \<rparr>"

definition demoExternals :: "(unit, nat, string, nat, MemoryHistory) externals" where
  "demoExternals =
     \<lparr> createMemoryHistory = createMemoryHistory_spec,
       history_action = (\<lambda>h. Pop),
       history_location = (\<lambda>h. \<lparr> pathname = (case currentEntry h of
                                               Some (EntryPath p) \<Rightarrow> p | _ \<Rightarrow> ''/''),
                                  search = '''', hash = '''' \<rparr>),
       matchRoutes = (\<lambda>rs p. length rs),
       createStaticHandler = (\<lambda>rs. demoHandler) \<rparr>"

definition demoRoutes :: "unit MockRouteObject list" where
  "demoRoutes = [MockNonIndexRouteObject (plainRoute ''/'') None]"

definition noOptions :: "'v RemixStubOptions" where
  "noOptions = \<lparr> initialEntries = None, initialLoaderData = None, initialActionData = None,
                 initialIndex = None \<rparr>"

section \<open>Auxiliary lemmas\<close>

subsection \<open>The fold that builds the manifest and the module map\<close>

lemma foldl_setProperty_own:
  assumes "p \<noteq> ''__proto__''"
  shows "own (foldl (\<lambda>obj r. setProperty obj (k r) (f r)) obj0 rs) p =
     (if filter (\<lambda>r. k r = p) rs = [] then own obj0 p
      else Some (f (last (filter (\<lambda>r. k r = p) rs))))"
proof (induction rs rule: rev_induct)
  case Nil
  show ?case by simp
next
  case (snoc r rs)
  show ?case
  proof (cases "k r = p")
    case True
    with assms show ?thesis by (simp add: setProperty_def)
  next
    case False
    with snoc show ?thesis by (simp add: setProperty_def)
  qed
qed

lemma foldl_setProperty_own_proto:
  "own (foldl (\<lambda>obj r. setProperty obj (k r) (f r)) obj0 rs) ''__proto__'' = own obj0 ''__proto__''"
  by (induction rs rule: rev_induct) (simp_all add: setProperty_def)

lemma foldl_setProperty_proto:
  "proto (foldl (\<lambda>obj r. setProperty obj (k r) (f r)) obj0 rs) =
     (if filter (\<lambda>r. k r = ''__proto__'') rs = [] then proto obj0
      else Some (f (last (filter (\<lambda>r. k r = ''__proto__'') rs))))"
proof (induction rs rule: rev_induct)
  case Nil
  show ?case by simp
next
  case (snoc r rs)
  then show ?case by (simp add: setProperty_def)
qed

lemma lastWithPath_path: "lastWithPath p rs = Some r \<Longrightarrow> path (base r) = p \<and> r \<in> set rs"
proof -
  assume a: "lastWithPath p rs = Some r"
  let ?fs = "filter (\<lambda>r. path (base r) = p) rs"
  from a have ne: "?fs \<noteq> []" and r: "r = last ?fs"
    by (auto simp: lastWithPath_def Let_def split: if_splits)
  from ne have "last ?fs \<in> set ?fs" by (rule last_in_set)
  with r show ?thesis by simp
qed

lemma lastWithPath_None: "lastWithPath p rs = None \<longleftrightarrow> p \<notin> (\<lambda>r. path (base r)) ` set rs"
  by (auto simp: lastWithPath_def Let_def filter_empty_conv)

lemma lastWithPath_append:
  "\<forall>r' \<in> set ys. path (base r') \<noteq> path (base r) \<Longrightarrow>
   lastWithPath (path (base r)) (xs @ r # ys) = Some r"
proof -
  assume "\<forall>r' \<in> set ys. path (base r') \<noteq> path (base r)"
  then have "filter (\<lambda>r'. path (base r') = path (base r)) ys = []"
    by (simp add: filter_empty_conv)
  then show ?thesis by (simp add: lastWithPath_def Let_def)
qed

lemma routes_createManifest:
  "p \<noteq> ''__proto__'' \<Longrightarrow>
   own (routes (createManifest rs)) p = map_option manifestEntryOf (lastWithPath p rs)"
  by (simp add: createManifest_def lastWithPath_def Let_def foldl_setProperty_own emptyObject_def)

lemma createRouteModules_lookup:
  "p \<noteq> ''__proto__'' \<Longrightarrow>
   own (createRouteModules rs) p = map_option routeModuleOf (lastWithPath p rs)"
  by (simp add: createRouteModules_def lastWithPath_def Let_def foldl_setProperty_own emptyObject_def)

text \<open>
  A route whose path is \<open>__proto__\<close> leaves no own property: the last such route becomes the
  prototype of the object.
\<close>

lemma createManifest_proto:
  "own (routes (createManifest rs)) ''__proto__'' = None
   \<and> proto (routes (createManifest rs)) = map_option manifestEntryOf (lastWithPath ''__proto__'' rs)"
  by (simp add: createManifest_def lastWithPath_def Let_def foldl_setProperty_own_proto
      foldl_setProperty_proto emptyObject_def)

lemma createRouteModules_proto:
  "own (createRouteModules rs) ''__proto__'' = None
   \<and> proto (createRouteModules rs) = map_option routeModuleOf (lastWithPath ''__proto__'' rs)"
  by (simp add: createRouteModules_def lastWithPath_def Let_def foldl_setProperty_own_proto
      foldl_setProperty_proto emptyObject_def)

lemma truthy_iff: "truthy x \<longleftrightarrow> x \<noteq> None"
  by (simp add: truthy_def split: option.splits)

subsection \<open>The fetch slot\<close>

lemma callFetch_monkeyPatchFetch:
  "callFetch (window_fetch (monkeyPatchFetch handler w0)) newRequest =
     patchedFetch newRequest handler (callFetch (window_fetch w0) newRequest)"
  by (simp add: monkeyPatchFetch_def)

lemma patchedFetch_original_irrelevant:
  assumes "\<not> (\<exists>request w1 status body w2.
              newRequest input (case init_arg of None \<Rightarrow> Map.empty | Some i \<Rightarrow> i) w = (Inr request, w1)
            \<and> queryRoute handler request w1 = (Rejected (ResponseInstance status body), w2)
            \<and> (status = 404 \<or> status = 405))"
  shows "patchedFetch newRequest handler f input init_arg w
           = patchedFetch newRequest handler g input init_arg w"
proof (cases "newRequest input (case init_arg of None \<Rightarrow> Map.empty | Some i \<Rightarrow> i) w")
  case (Pair res w1)
  show ?thesis
  proof (cases res)
    case (Inl thrown)
    with Pair show ?thesis by (simp add: patchedFetch_def)
  next
    case (Inr request)
    obtain outcome w2 where qr: "queryRoute handler request w1 = (outcome, w2)"
      by (cases "queryRoute handler request w1") auto
    from assms Pair Inr qr
    have no: "\<And>status body. outcome = Rejected (ResponseInstance status body) \<Longrightarrow>
                status \<noteq> 404 \<and> status \<noteq> 405"
      by auto
    show ?thesis
    proof (cases outcome)
      case (Fulfilled response)
      with Pair Inr qr show ?thesis by (simp add: patchedFetch_def)
    next
      case Pending
      with Pair Inr qr show ?thesis by (simp add: patchedFetch_def)
    next
      case (Rejected err)
      show ?thesis
      proof (cases err)
        case (ResponseInstance status body)
        with Rejected no have "status \<noteq> 404 \<and> status \<noteq> 405" by simp
        with Pair Inr qr Rejected ResponseInstance show ?thesis
          by (simp add: patchedFetch_def)
      next
        case (OtherValue sp body)
        with Pair Inr qr Rejected show ?thesis by (simp add: patchedFetch_def)
      qed
    qed
  qed
qed

lemma captured_depth: "g \<in> set (captured f) \<Longrightarrow> depth g < depth f"
  by (induction f) auto

lemma not_self_captured: "f \<notin> set (captured f)"
  using captured_depth [of f f] by auto

lemma captured_isPatched: "g \<in> set (captured f) \<Longrightarrow> isPatched f"
  by (cases f) auto

lemma window_fetch_RemixStub:
  "RemixStub ext rs props hs w = (el, hs', w') \<Longrightarrow>
   window_fetch w' = PatchedFetch (createStaticHandler ext rs) (window_fetch w)"
  by (auto simp: RemixStub_def Let_def monkeyPatchFetch_def)

lemma window_fetch_render:
  "window_fetch (win (render ext i rs props hs s))
     = PatchedFetch (createStaticHandler ext rs) (window_fetch (win s))"
  by (auto simp: render_def split: prod.splits dest: window_fetch_RemixStub)

lemma step_captured:
  "f0 \<in> set (captured (window_fetch (win s))) \<Longrightarrow>
   f0 \<in> set (captured (window_fetch (win (step ext e s))))"
  by (cases e) (auto simp: window_fetch_render split: option.splits)

lemma run_captured:
  "f0 \<in> set (captured (window_fetch (win s))) \<Longrightarrow>
   f0 \<in> set (captured (window_fetch (win (run ext es s))))"
  unfolding run_def
  by (induction es arbitrary: s) (simp_all add: step_captured)

subsection \<open>The builder on a store\<close>

lemma foldl_writeManifest:
  "a < length (heap st) \<Longrightarrow> heap st ! a = ManifestCell obj \<Longrightarrow>
   foldl (\<lambda>st route. writeManifest a (k route) (f route) st) st rs =
     st\<lparr>heap := (heap st)[a := ManifestCell
                    (foldl (\<lambda>obj route. setProperty obj (k route) (f route)) obj rs)]\<rparr>"
proof (induction rs arbitrary: st obj)
  case Nil
  then show ?case by (simp add: list_update_same_conv [THEN iffD2])
next
  case (Cons r rs)
  let ?st1 = "st\<lparr>heap := (heap st)[a := ManifestCell (setProperty obj (k r) (f r))]\<rparr>"
  from Cons.prems have step: "writeManifest a (k r) (f r) st = ?st1"
    by (simp add: writeManifest_def)
  from Cons.prems have "a < length (heap ?st1)"
    and "heap ?st1 ! a = ManifestCell (setProperty obj (k r) (f r))"
    by simp_all
  then have "foldl (\<lambda>st route. writeManifest a (k route) (f route) st) ?st1 rs =
     ?st1\<lparr>heap := (heap ?st1)[a := ManifestCell
        (foldl (\<lambda>obj route. setProperty obj (k route) (f route)) (setProperty obj (k r) (f r)) rs)]\<rparr>"
    by (rule Cons.IH)
  with step show ?case by simp
qed

lemma foldl_writeModules:
  "a < length (heap st) \<Longrightarrow> heap st ! a = ModulesCell obj \<Longrightarrow>
   foldl (\<lambda>st route. writeModules a (k route) (f route) st) st rs =
     st\<lparr>heap := (heap st)[a := ModulesCell
                    (foldl (\<lambda>obj route. setProperty obj (k route) (f route)) obj rs)]\<rparr>"
proof (induction rs arbitrary: st obj)
  case Nil
  then show ?case by (simp add: list_update_same_conv [THEN iffD2])
next
  case (Cons r rs)
  let ?st1 = "st\<lparr>heap := (heap st)[a := ModulesCell (setProperty obj (k r) (f r))]\<rparr>"
  from Cons.prems have step: "writeModules a (k r) (f r) st = ?st1"
    by (simp add: writeModules_def)
  from Cons.prems have "a < length (heap ?st1)"
    and "heap ?st1 ! a = ModulesCell (setProperty obj (k r) (f r))"
    by simp_all
  then have "foldl (\<lambda>st route. writeModules a (k route) (f route) st) ?st1 rs =
     ?st1\<lparr>heap := (heap ?st1)[a := ModulesCell
        (foldl (\<lambda>obj route. setProperty obj (k route) (f route)) (setProperty obj (k r) (f r)) rs)]\<rparr>"
    by (rule Cons.IH)
  with step show ?case by simp
qed

lemma createManifest_st_eq:
  "createManifest_st rs st =
     (\<lparr> routes = length (heap st),
        entry = entry (createManifest rs),
        url = url (createManifest rs),
        version = version (createManifest rs) \<rparr>,
      st\<lparr>heap := heap st @ [ManifestCell (routes (createManifest rs))]\<rparr>)"
proof -
  let ?st1 = "st\<lparr>heap := heap st @ [ManifestCell emptyObject]\<rparr>"
  have "foldl (\<lambda>st' route. writeManifest (length (heap st)) (path (base route))
                 (manifestEntryOf route) st') ?st1 rs =
     ?st1\<lparr>heap := (heap ?st1)[length (heap st) := ManifestCell
        (foldl (\<lambda>obj route. setProperty obj (path (base route)) (manifestEntryOf route))
           emptyObject rs)]\<rparr>"
    by (rule foldl_writeManifest) simp_all
  then show ?thesis
    by (simp add: createManifest_st_def allocate_def createManifest_def)
qed

lemma createRouteModules_st_eq:
  "createRouteModules_st rs st =
     (length (heap st), st\<lparr>heap := heap st @ [ModulesCell (createRouteModules rs)]\<rparr>)"
proof -
  let ?st1 = "st\<lparr>heap := heap st @ [ModulesCell emptyObject]\<rparr>"
  have "foldl (\<lambda>st' route. writeModules (length (heap st)) (path (base route))
                 (routeModuleOf route) st') ?st1 rs =
     ?st1\<lparr>heap := (heap ?st1)[length (heap st) := ModulesCell
        (foldl (\<lambda>obj route. setProperty obj (path (base route)) (routeModuleOf route))
           emptyObject rs)]\<rparr>"
    by (rule foldl_writeModules) simp_all
  then show ?thesis
    by (simp add: createRouteModules_st_def allocate_def createRouteModules_def)
qed

lemma createRemixContext_st_result:
  assumes "createRemixContext_st matcher rs loc ld ad st = (ctx, st')"
  shows "heap st' = heap st @ [ManifestCell (routes (createManifest rs)),
                               ModulesCell (createRouteModules rs)]"
    and "globals st' = globals st"
    and "routes (manifest ctx) = length (heap st)"
    and "routeModules ctx = Suc (length (heap st))"
    and "contextAt st' ctx = Some (createRemixContext matcher rs loc ld ad)"
proof -
  from assms have ctx: "ctx =
      \<lparr> actionData = ad,
        appState = appState (createRemixContext matcher rs loc ld ad),
        matches = matcher rs (pathname loc),
        routeData = ld,
        manifest = \<lparr> routes = length (heap st),
                     entry = entry (createManifest rs),
                     url = url (createManifest rs),
                     version = version (createManifest rs) \<rparr>,
        routeModules = Suc (length (heap st)) \<rparr>"
    and st': "st' = st\<lparr>heap := heap st @ [ManifestCell (routes (createManifest rs)),
                                            ModulesCell (createRouteModules rs)]\<rparr>"
    by (auto simp: createRemixContext_st_def createManifest_st_eq createRouteModules_st_eq
        createRemixContext_def Let_def)
  from st' show "heap st' = heap st @ [ManifestCell (routes (createManifest rs)),
                               ModulesCell (createRouteModules rs)]"
    by simp
  from st' show "globals st' = globals st" by simp
  from ctx show "routes (manifest ctx) = length (heap st)" by simp
  from ctx show "routeModules ctx = Suc (length (heap st))" by simp
  from ctx st' show "contextAt st' ctx = Some (createRemixContext matcher rs loc ld ad)"
    by (simp add: contextAt_def nth_append createRemixContext_def Let_def)
qed

subsection \<open>The history adapter\<close>

lemma currentEntry_last:
  "es \<noteq> [] \<Longrightarrow> currentEntry (createMemoryHistory_spec es None) = Some (last es)"
  by (cases es rule: rev_cases) (auto simp: currentEntry_def createMemoryHistory_spec_def nth_append)

section \<open>Network interceptor: outcomes of the patched fetch\<close>

text \<open>
  Claim C1. Take any call of the function that \<open>monkeyPatchFetch\<close> has put in the fetch slot,
  in which the request is built and \<open>queryRoute\<close> settles. If \<open>queryRoute\<close> succeeds, its
  response is returned as it is. If it throws a response (an instance of \<open>Response\<close>, which is
  what the code tests) with status 404 or 405, the result is that of the captured original fetch,
  called with the same input and the same init, in the world \<open>queryRoute\<close> left. Any other
  thrown value is thrown again unchanged; a response with status 500 is one of them.
\<close>

theorem patched_fetch_outcomes:
  assumes req: "newRequest input (case init_arg of None \<Rightarrow> Map.empty | Some i \<Rightarrow> i) w = (Inr request, w1)"
      and qr: "queryRoute handler request w1 = (outcome, w2)"
  shows "(\<forall>response. outcome = Fulfilled response \<longrightarrow>
            callFetch (window_fetch (monkeyPatchFetch handler w0)) newRequest input init_arg w
              = (Fulfilled response, w2))
       \<and> (\<forall>status body. outcome = Rejected (ResponseInstance status body) \<and> (status = 404 \<or> status = 405) \<longrightarrow>
            callFetch (window_fetch (monkeyPatchFetch handler w0)) newRequest input init_arg w
              = callFetch (window_fetch w0) newRequest input
                  (Some (case init_arg of None \<Rightarrow> Map.empty | Some i \<Rightarrow> i)) w2)
       \<and> (\<forall>thrown. outcome = Rejected thrown
              \<and> (\<forall>body. thrown \<noteq> ResponseInstance 404 body \<and> thrown \<noteq> ResponseInstance 405 body) \<longrightarrow>
            callFetch (window_fetch (monkeyPatchFetch handler w0)) newRequest input init_arg w
              = (Rejected thrown, w2))
       \<and> (\<forall>body. outcome = Rejected (ResponseInstance 500 body) \<longrightarrow>
            callFetch (window_fetch (monkeyPatchFetch handler w0)) newRequest input init_arg w
              = (Rejected (ResponseInstance 500 body), w2))"
  using req qr
  by (auto simp: callFetch_monkeyPatchFetch patchedFetch_def split: js_value.splits)

theorem patched_fetch_outcomes_witness:
  "callFetch (window_fetch (monkeyPatchFetch demoHandler demoWindow)) demoRequest ''/mock'' None 0
     = (Fulfilled (ResponseInstance 200 ()), 1)
   \<and> callFetch (window_fetch (monkeyPatchFetch demoHandler demoWindow)) demoRequest ''/elsewhere'' None 0
     = (Fulfilled (ResponseInstance 204 ()), 11)
   \<and> callFetch (window_fetch (monkeyPatchFetch demoHandler demoWindow)) demoRequest ''/broken'' None 0
     = (Rejected (ResponseInstance 500 ()), 1)"
proof -
  have orig: "callFetch (window_fetch demoWindow) demoRequest ''/elsewhere'' (Some Map.empty) 1
                = (Fulfilled (ResponseInstance 204 ()), 11)"
    by (simp add: demoWindow_def)
  show ?thesis
    using orig
      patched_fetch_outcomes [where newRequest = demoRequest and input = "''/mock''"
        and init_arg = None and w = 0 and request = "''/mock''" and ?w1.0 = 0
        and handler = demoHandler and outcome = "Fulfilled (ResponseInstance 200 ())"
        and ?w2.0 = 1 and ?w0.0 = demoWindow]
      patched_fetch_outcomes [where newRequest = demoRequest and input = "''/elsewhere''"
        and init_arg = None and w = 0 and request = "''/elsewhere''" and ?w1.0 = 0
        and handler = demoHandler and outcome = "Rejected (ResponseInstance 404 ())"
        and ?w2.0 = 1 and ?w0.0 = demoWindow]
      patched_fetch_outcomes [where newRequest = demoRequest and input = "''/broken''"
        and init_arg = None and w = 0 and request = "''/broken''" and ?w1.0 = 0
        and handler = demoHandler and outcome = "Rejected (ResponseInstance 500 ())"
        and ?w2.0 = 1 and ?w0.0 = demoWindow]
    by (simp add: demoRequest_def demoHandler_def)
qed

text \<open>
  Claim C9. A thrown value that is not an instance of \<open>Response\<close> is thrown again unchanged,
  whatever \<open>status\<close> property it carries (404 and 405 included): the result is the rejection
  in the world \<open>queryRoute\<close> left, so the captured original fetch is not called. And the
  captured original fetch matters to the result only when \<open>queryRoute\<close> has thrown an
  instance of \<open>Response\<close> with status 404 or 405: if two replacements that differ only in
  the function they captured give different results for a call, then that is what happened in
  the call.
\<close>

theorem non_response_rethrown:
  "(newRequest input (case init_arg of None \<Rightarrow> Map.empty | Some i \<Rightarrow> i) w = (Inr request, w1)
      \<and> queryRoute handler request w1 = (Rejected (OtherValue status_property body), w2)
    \<longrightarrow> callFetch (window_fetch (monkeyPatchFetch handler w0)) newRequest input init_arg w
           = (Rejected (OtherValue status_property body), w2))
   \<and> (callFetch (window_fetch (monkeyPatchFetch handler w0)) newRequest input init_arg w
        \<noteq> callFetch (window_fetch (monkeyPatchFetch handler w0')) newRequest input init_arg w
    \<longrightarrow> (\<exists>request' w1' status body' w2'.
            newRequest input (case init_arg of None \<Rightarrow> Map.empty | Some i \<Rightarrow> i) w = (Inr request', w1')
          \<and> queryRoute handler request' w1' = (Rejected (ResponseInstance status body'), w2')
          \<and> (status = 404 \<or> status = 405)))"
proof (intro conjI impI)
  assume "newRequest input (case init_arg of None \<Rightarrow> Map.empty | Some i \<Rightarrow> i) w = (Inr request, w1)
      \<and> queryRoute handler request w1 = (Rejected (OtherValue status_property body), w2)"
  then show "callFetch (window_fetch (monkeyPatchFetch handler w0)) newRequest input init_arg w
           = (Rejected (OtherValue status_property body), w2)"
    by (simp add: callFetch_monkeyPatchFetch patchedFetch_def)
next
  assume differ: "callFetch (window_fetch (monkeyPatchFetch handler w0)) newRequest input init_arg w
        \<noteq> callFetch (window_fetch (monkeyPatchFetch handler w0')) newRequest input init_arg w"
  show "\<exists>request' w1' status body' w2'.
            newRequest input (case init_arg of None \<Rightarrow> Map.empty | Some i \<Rightarrow> i) w = (Inr request', w1')
          \<and> queryRoute handler request' w1' = (Rejected (ResponseInstance status body'), w2')
          \<and> (status = 404 \<or> status = 405)"
  proof (rule ccontr)
    assume "\<not> ?thesis"
    then have "patchedFetch newRequest handler (callFetch (window_fetch w0) newRequest) input init_arg w
             = patchedFetch newRequest handler (callFetch (window_fetch w0') newRequest) input init_arg w"
      by (rule patchedFetch_original_irrelevant)
    with differ show False by (simp add: callFetch_monkeyPatchFetch)
  qed
qed

theorem non_response_rethrown_witness:
  "callFetch (window_fetch (monkeyPatchFetch demoHandler demoWindow)) demoRequest ''/plain-object'' None 0
     = (Rejected (OtherValue (Some 404) ()), 1)
   \<and> callFetch (window_fetch (monkeyPatchFetch demoHandler demoWindow)) demoRequest ''/elsewhere'' None 0
     \<noteq> callFetch (window_fetch (monkeyPatchFetch demoHandler (monkeyPatchFetch demoHandler demoWindow)))
         demoRequest ''/elsewhere'' None 0
   \<and> (\<exists>request' w1' status body' w2'.
         demoRequest ''/elsewhere'' Map.empty 0 = (Inr request', w1')
       \<and> queryRoute demoHandler request' w1' = (Rejected (ResponseInstance status body'), w2')
       \<and> (status = 404 \<or> status = 405))"
proof -
  have differ: "callFetch (window_fetch (monkeyPatchFetch demoHandler demoWindow)) demoRequest ''/elsewhere'' None 0
     \<noteq> callFetch (window_fetch (monkeyPatchFetch demoHandler (monkeyPatchFetch demoHandler demoWindow)))
         demoRequest ''/elsewhere'' None 0"
    by (simp add: monkeyPatchFetch_def patchedFetch_def demoRequest_def demoHandler_def demoWindow_def)
  show ?thesis
    using differ
      non_response_rethrown [where newRequest = demoRequest and input = "''/plain-object''"
        and init_arg = None and w = 0 and request = "''/plain-object''" and ?w1.0 = 0
        and handler = demoHandler and status_property = "Some 404" and body = "()"
        and ?w2.0 = 1 and ?w0.0 = demoWindow]
      non_response_rethrown [where newRequest = demoRequest and input = "''/elsewhere''"
        and init_arg = None and w = 0 and handler = demoHandler and ?w0.0 = demoWindow
        and ?w0' = "monkeyPatchFetch demoHandler demoWindow"]
    by (simp add: demoRequest_def demoHandler_def)
qed

section \<open>Context builder\<close>

text \<open>
  Claim C2, amended. For every routes array and every path other than \<open>__proto__\<close>, the
  manifest has an entry at the path exactly when some route of the array given to the builder
  (a top-level route) declares that path, and the entry is
  \<open>{id: path, path, hasAction, hasLoader, module: "", hasCatchBoundary, hasErrorBoundary}\<close>,
  each flag saying whether the property is present, computed from the last top-level route that
  declares the path. Routes that occur only as children of other routes get no entry.
\<close>

theorem createManifest_top_level:
  assumes "p \<noteq> ''__proto__''"
  shows "own (routes (createManifest rs)) p =
     map_option (\<lambda>r. \<lparr> entry_id = p, entry_path = p,
                        hasAction = (action (base r) \<noteq> None),
                        hasLoader = (loader (base r) \<noteq> None),
                        module = '''',
                        hasCatchBoundary = (CatchBoundary (base r) \<noteq> None),
                        hasErrorBoundary = (ErrorBoundary (base r) \<noteq> None) \<rparr>)
       (lastWithPath p rs)
   \<and> (p \<in> dom (own (routes (createManifest rs)))) = (p \<in> (\<lambda>r. path (base r)) ` set rs)"
proof
  show "own (routes (createManifest rs)) p =
     map_option (\<lambda>r. \<lparr> entry_id = p, entry_path = p,
                        hasAction = (action (base r) \<noteq> None),
                        hasLoader = (loader (base r) \<noteq> None),
                        module = '''',
                        hasCatchBoundary = (CatchBoundary (base r) \<noteq> None),
                        hasErrorBoundary = (ErrorBoundary (base r) \<noteq> None) \<rparr>)
       (lastWithPath p rs)"
  proof (cases "lastWithPath p rs")
    case None
    with assms show ?thesis by (simp add: routes_createManifest)
  next
    case (Some r)
    then have "path (base r) = p" by (simp add: lastWithPath_path)
    with Some assms show ?thesis
      by (simp add: routes_createManifest manifestEntryOf_def truthy_iff)
  qed
next
  from assms have "p \<in> dom (own (routes (createManifest rs))) \<longleftrightarrow> lastWithPath p rs \<noteq> None"
    by (simp add: domIff routes_createManifest)
  then show "(p \<in> dom (own (routes (createManifest rs)))) = (p \<in> (\<lambda>r. path (base r)) ` set rs)"
    by (simp add: lastWithPath_None)
qed

theorem createManifest_top_level_witness:
  "''/a'' \<noteq> ''__proto__''
   \<and> own (routes (createManifest
        [MockIndexRouteObject ((plainRoute ''/a'')\<lparr>action := Some (1::nat)\<rparr>),
         MockNonIndexRouteObject ((plainRoute ''/a'')\<lparr>loader := Some 2, ErrorBoundary := Some 3\<rparr>)
           (Some [MockIndexRouteObject (plainRoute ''child'')]),
         MockIndexRouteObject (plainRoute ''/b'')])) ''/a''
     = Some \<lparr> entry_id = ''/a'', entry_path = ''/a'', hasAction = False, hasLoader = True,
              module = '''', hasCatchBoundary = False, hasErrorBoundary = True \<rparr>
   \<and> ''/a'' \<in> dom (own (routes (createManifest
        [MockIndexRouteObject ((plainRoute ''/a'')\<lparr>action := Some (1::nat)\<rparr>),
         MockNonIndexRouteObject ((plainRoute ''/a'')\<lparr>loader := Some 2, ErrorBoundary := Some 3\<rparr>)
           (Some [MockIndexRouteObject (plainRoute ''child'')]),
         MockIndexRouteObject (plainRoute ''/b'')])))"
proof -
  have h: "''/a'' \<noteq> ''__proto__''" by simp
  show ?thesis
    using h createManifest_top_level [OF h, of
        "[MockIndexRouteObject ((plainRoute ''/a'')\<lparr>action := Some (1::nat)\<rparr>),
          MockNonIndexRouteObject ((plainRoute ''/a'')\<lparr>loader := Some 2, ErrorBoundary := Some 3\<rparr>)
            (Some [MockIndexRouteObject (plainRoute ''child'')]),
          MockIndexRouteObject (plainRoute ''/b'')]"]
    by (simp add: lastWithPath_def plainRoute_def)
qed

text \<open>
  Claim C2 as stated fails: a child route is a Route Node of the tree and has no manifest entry.
\<close>

theorem createManifest_child_counterexample:
  "MockNonIndexRouteObject (plainRoute ''child'') None \<in>
     set (allNodes [MockNonIndexRouteObject (plainRoute ''/'')
                      (Some [MockNonIndexRouteObject (plainRoute ''child'') None :: unit MockRouteObject])])
   \<and> own (routes (createManifest [MockNonIndexRouteObject (plainRoute ''/'')
                      (Some [MockNonIndexRouteObject (plainRoute ''child'') None :: unit MockRouteObject])]))
       (path (base (MockNonIndexRouteObject (plainRoute ''child'') None :: unit MockRouteObject))) = None"
  by (simp add: allNodes_def createManifest_def plainRoute_def setProperty_def emptyObject_def)

text \<open>
  Claim C4, amended. For every routes array and every path other than \<open>__proto__\<close>, the module
  map has an entry at the path exactly when some top-level route declares that path, and the
  entry is \<open>{CatchBoundary, ErrorBoundary, default, handle, links, meta, unstable_shouldReload}\<close>
  of the last top-level route that declares the path, where \<open>default\<close> returns the route's
  declared element wrapped in a fragment. Routes that occur only as children of other routes get
  no entry.
\<close>

theorem createRouteModules_top_level:
  assumes "p \<noteq> ''__proto__''"
  shows "own (createRouteModules rs) p =
     map_option (\<lambda>r. \<lparr> mod_CatchBoundary = CatchBoundary (base r),
                        mod_ErrorBoundary = ErrorBoundary (base r),
                        default_export = (\<lambda>_. Fragment (element (base r))),
                        mod_handle = handle (base r),
                        mod_links = links (base r),
                        mod_meta = meta (base r),
                        mod_unstable_shouldReload = unstable_shouldReload (base r) \<rparr>)
       (lastWithPath p rs)
   \<and> (p \<in> dom (own (createRouteModules rs))) = (p \<in> (\<lambda>r. path (base r)) ` set rs)"
proof
  from assms show "own (createRouteModules rs) p =
     map_option (\<lambda>r. \<lparr> mod_CatchBoundary = CatchBoundary (base r),
                        mod_ErrorBoundary = ErrorBoundary (base r),
                        default_export = (\<lambda>_. Fragment (element (base r))),
                        mod_handle = handle (base r),
                        mod_links = links (base r),
                        mod_meta = meta (base r),
                        mod_unstable_shouldReload = unstable_shouldReload (base r) \<rparr>)
       (lastWithPath p rs)"
    by (cases "lastWithPath p rs") (simp_all add: createRouteModules_lookup routeModuleOf_def)
next
  from assms have "p \<in> dom (own (createRouteModules rs)) \<longleftrightarrow> lastWithPath p rs \<noteq> None"
    by (simp add: domIff createRouteModules_lookup)
  then show "(p \<in> dom (own (createRouteModules rs))) = (p \<in> (\<lambda>r. path (base r)) ` set rs)"
    by (simp add: lastWithPath_None)
qed

theorem createRouteModules_top_level_witness:
  "''/a'' \<noteq> ''__proto__''
   \<and> own (createRouteModules
        [MockIndexRouteObject ((plainRoute ''/a'')\<lparr>element := Some (1::nat), meta := Some 4\<rparr>),
         MockNonIndexRouteObject
           ((plainRoute ''/a'')\<lparr>element := Some 2, handle := Some 5, ErrorBoundary := Some 3\<rparr>)
           (Some [MockIndexRouteObject (plainRoute ''child'')]),
         MockIndexRouteObject (plainRoute ''/b'')]) ''/a''
     = Some \<lparr> mod_CatchBoundary = None, mod_ErrorBoundary = Some 3,
              default_export = (\<lambda>_. Fragment (Some 2)),
              mod_handle = Some 5, mod_links = None, mod_meta = None,
              mod_unstable_shouldReload = None \<rparr>
   \<and> ''/a'' \<in> dom (own (createRouteModules
        [MockIndexRouteObject ((plainRoute ''/a'')\<lparr>element := Some (1::nat), meta := Some 4\<rparr>),
         MockNonIndexRouteObject
           ((plainRoute ''/a'')\<lparr>element := Some 2, handle := Some 5, ErrorBoundary := Some 3\<rparr>)
           (Some [MockIndexRouteObject (plainRoute ''child'')]),
         MockIndexRouteObject (plainRoute ''/b'')]))"
proof -
  have h: "''/a'' \<noteq> ''__proto__''" by simp
  show ?thesis
    using h createRouteModules_top_level [OF h, of
        "[MockIndexRouteObject ((plainRoute ''/a'')\<lparr>element := Some (1::nat), meta := Some 4\<rparr>),
          MockNonIndexRouteObject
            ((plainRoute ''/a'')\<lparr>element := Some 2, handle := Some 5, ErrorBoundary := Some 3\<rparr>)
            (Some [MockIndexRouteObject (plainRoute ''child'')]),
          MockIndexRouteObject (plainRoute ''/b'')]"]
    by (simp add: lastWithPath_def plainRoute_def)
qed

text \<open>
  Claim C4 as stated fails: a child route is a Route Node of the tree and has no module entry.
\<close>

theorem createRouteModules_child_counterexample:
  "MockNonIndexRouteObject (plainRoute ''child'') None \<in>
     set (allNodes [MockNonIndexRouteObject (plainRoute ''/'')
                      (Some [MockNonIndexRouteObject (plainRoute ''child'') None :: unit MockRouteObject])])
   \<and> own (createRouteModules [MockNonIndexRouteObject (plainRoute ''/'')
                      (Some [MockNonIndexRouteObject (plainRoute ''child'') None :: unit MockRouteObject])])
       (path (base (MockNonIndexRouteObject (plainRoute ''child'') None :: unit MockRouteObject))) = None"
  by (simp add: allNodes_def createRouteModules_def plainRoute_def setProperty_def emptyObject_def)

text \<open>
  Claim C10, amended. When several routes of the top-level array declare the same path, other
  than \<open>__proto__\<close>, the last of them wins: for a route \<open>r\<close> that no later route of the array
  shares its path with, whatever comes before it, the manifest holds at that path the flags of
  \<open>r\<close> and the module map holds at that path the boundaries, element, handle, links, meta and
  reload function of \<open>r\<close>. An object holds one property for a key, so this is the only entry for
  the path.
\<close>

theorem duplicate_path_last_wins:
  assumes "path (base r) \<noteq> ''__proto__''"
      and "\<forall>r' \<in> set ys. path (base r') \<noteq> path (base r)"
  shows "own (routes (createManifest (xs @ r # ys))) (path (base r)) =
           Some \<lparr> entry_id = path (base r), entry_path = path (base r),
                  hasAction = (action (base r) \<noteq> None),
                  hasLoader = (loader (base r) \<noteq> None),
                  module = '''',
                  hasCatchBoundary = (CatchBoundary (base r) \<noteq> None),
                  hasErrorBoundary = (ErrorBoundary (base r) \<noteq> None) \<rparr>
       \<and> own (createRouteModules (xs @ r # ys)) (path (base r)) =
           Some \<lparr> mod_CatchBoundary = CatchBoundary (base r),
                  mod_ErrorBoundary = ErrorBoundary (base r),
                  default_export = (\<lambda>_. Fragment (element (base r))),
                  mod_handle = handle (base r),
                  mod_links = links (base r),
                  mod_meta = meta (base r),
                  mod_unstable_shouldReload = unstable_shouldReload (base r) \<rparr>"
  using lastWithPath_append [OF assms(2), of xs] assms(1)
  by (simp add: routes_createManifest createRouteModules_lookup manifestEntryOf_def
      routeModuleOf_def truthy_iff)

theorem duplicate_path_last_wins_witness:
  "path (base (MockIndexRouteObject ((plainRoute ''/a'')
       \<lparr>element := Some (20::nat), loader := Some 21, links := Some 22, meta := Some 23,
        handle := Some 24, CatchBoundary := Some 25\<rparr>))) \<noteq> ''__proto__''
   \<and> path (base (MockIndexRouteObject (plainRoute ''/b'') :: nat MockRouteObject)) \<noteq> ''/a''
   \<and> own (routes (createManifest
         [MockIndexRouteObject ((plainRoute ''/a'')
            \<lparr>element := Some (10::nat), action := Some 11, links := Some 12, meta := Some 13,
             handle := Some 14, ErrorBoundary := Some 15\<rparr>),
          MockIndexRouteObject ((plainRoute ''/a'')
            \<lparr>element := Some 20, loader := Some 21, links := Some 22, meta := Some 23,
             handle := Some 24, CatchBoundary := Some 25\<rparr>),
          MockIndexRouteObject (plainRoute ''/b'')])) ''/a''
       = Some \<lparr> entry_id = ''/a'', entry_path = ''/a'', hasAction = False, hasLoader = True,
                module = '''', hasCatchBoundary = True, hasErrorBoundary = False \<rparr>
   \<and> own (createRouteModules
         [MockIndexRouteObject ((plainRoute ''/a'')
            \<lparr>element := Some (10::nat), action := Some 11, links := Some 12, meta := Some 13,
             handle := Some 14, ErrorBoundary := Some 15\<rparr>),
          MockIndexRouteObject ((plainRoute ''/a'')
            \<lparr>element := Some 20, loader := Some 21, links := Some 22, meta := Some 23,
             handle := Some 24, CatchBoundary := Some 25\<rparr>),
          MockIndexRouteObject (plainRoute ''/b'')]) ''/a''
       = Some \<lparr> mod_CatchBoundary = Some 25, mod_ErrorBoundary = None,
                default_export = (\<lambda>_. Fragment (Some 20)),
                mod_handle = Some 24, mod_links = Some 22, mod_meta = Some 23,
                mod_unstable_shouldReload = None \<rparr>"
proof -
  have h1: "path (base (MockIndexRouteObject ((plainRoute ''/a'')
       \<lparr>element := Some (20::nat), loader := Some 21, links := Some 22, meta := Some 23,
        handle := Some 24, CatchBoundary := Some 25\<rparr>))) \<noteq> ''__proto__''"
    by (simp add: plainRoute_def)
  have h2: "\<forall>r' \<in> set [MockIndexRouteObject (plainRoute ''/b'')].
       path (base r') \<noteq> path (base (MockIndexRouteObject ((plainRoute ''/a'')
         \<lparr>element := Some (20::nat), loader := Some 21, links := Some 22, meta := Some 23,
          handle := Some 24, CatchBoundary := Some 25\<rparr>)))"
    by (simp add: plainRoute_def)
  show ?thesis
    using h1 h2 duplicate_path_last_wins [OF h1 h2, of
        "[MockIndexRouteObject ((plainRoute ''/a'')
            \<lparr>element := Some (10::nat), action := Some 11, links := Some 12, meta := Some 13,
             handle := Some 14, ErrorBoundary := Some 15\<rparr>)]"]
    by (simp add: plainRoute_def)
qed

text \<open>
  Claim C10 as stated fails for the path \<open>__proto__\<close>: two top-level routes declare it, and
  neither the manifest nor the module map has an entry at it.
\<close>

theorem duplicate_path_proto_counterexample:
  "path (base (MockIndexRouteObject ((plainRoute ''__proto__'')\<lparr>action := Some (1::nat)\<rparr>)))
     = path (base (MockIndexRouteObject ((plainRoute ''__proto__'')\<lparr>loader := Some (2::nat)\<rparr>)))
   \<and> own (routes (createManifest
         [MockIndexRouteObject ((plainRoute ''__proto__'')\<lparr>action := Some (1::nat)\<rparr>),
          MockIndexRouteObject ((plainRoute ''__proto__'')\<lparr>loader := Some 2\<rparr>)]))
        (path (base (MockIndexRouteObject ((plainRoute ''__proto__'')\<lparr>loader := Some (2::nat)\<rparr>))))
       = None
   \<and> own (createRouteModules
         [MockIndexRouteObject ((plainRoute ''__proto__'')\<lparr>action := Some (1::nat)\<rparr>),
          MockIndexRouteObject ((plainRoute ''__proto__'')\<lparr>loader := Some 2\<rparr>)])
        (path (base (MockIndexRouteObject ((plainRoute ''__proto__'')\<lparr>loader := Some (2::nat)\<rparr>))))
       = None"
  by (simp add: createManifest_def createRouteModules_def plainRoute_def setProperty_def
      emptyObject_def)

text \<open>
  Claim C3. The matched-route list of the rendering context is what the supplied path matcher
  returns for the routes and the pathname of the current location, unchanged; so is the list in
  the context that a render of the stub hands to the entry point, for the location it renders.
\<close>

theorem createRemixContext_matches:
  "matches (createRemixContext matcher rs currentLocation initialLoaderData' initialActionData')
     = matcher rs (pathname currentLocation)
   \<and> matches (props_context (fst (RemixStub ext rs props hs w)))
     = matchRoutes ext rs (pathname (props_location (fst (RemixStub ext rs props hs w))))"
  by (simp add: createRemixContext_def RemixStub_def Let_def)

text \<open>
  Claim C6. For every input the \<open>appState\<close> block of the rendering context is the same fixed
  value: the three boundary route ids are \<open>null\<close> and neither \<open>error\<close> nor \<open>catch\<close> is
  set.
\<close>

theorem createRemixContext_appState:
  "appState (createRemixContext matcher rs currentLocation initialLoaderData' initialActionData') =
     \<lparr> trackBoundaries = True, trackCatchBoundaries = True,
       catchBoundaryRouteId = None, renderBoundaryRouteId = None, loaderBoundaryRouteId = None,
       error = None, catch = None \<rparr>"
  by (simp add: createRemixContext_def)

text \<open>
  Claim C7. Take two calls of \<open>createRemixContext\<close> with equal routes, equal location, equal
  loader data and equal action data, each in a program state of its own (any store, any window)
  and with the same path matcher. The rendering context of each call is the value that the
  arguments alone determine, so the two contexts are equal. A call leaves the window and every
  object that was in the store as they were: it only adds objects. The two objects it returns
  are new ones, so they are none of the objects a call before it has returned, and a call after
  it leaves its result as it was.
\<close>

theorem createRemixContext_deterministic:
  assumes call1: "createRemixContext_st matcher rs1 loc1 ld1 ad1 st1 = (ctx1, st1')"
      and call2: "createRemixContext_st matcher rs2 loc2 ld2 ad2 st2 = (ctx2, st2')"
      and same: "rs1 = rs2" "loc1 = loc2" "ld1 = ld2" "ad1 = ad2"
  shows "contextAt st1' ctx1 = Some (createRemixContext matcher rs1 loc1 ld1 ad1)
       \<and> contextAt st2' ctx2 = contextAt st1' ctx1
       \<and> globals st1' = globals st1
       \<and> take (length (heap st1)) (heap st1') = heap st1
       \<and> length (heap st1) \<le> routes (manifest ctx1)
       \<and> length (heap st1) \<le> routeModules ctx1
       \<and> routes (manifest ctx1) \<noteq> routeModules ctx1
       \<and> (st2 = st1' \<longrightarrow>
            routes (manifest ctx2) \<noteq> routes (manifest ctx1)
          \<and> routes (manifest ctx2) \<noteq> routeModules ctx1
          \<and> routeModules ctx2 \<noteq> routes (manifest ctx1)
          \<and> routeModules ctx2 \<noteq> routeModules ctx1
          \<and> contextAt st2' ctx1 = contextAt st1' ctx1)"
proof -
  note r1 = createRemixContext_st_result [OF call1]
  note r2 = createRemixContext_st_result [OF call2]
  have value1: "contextAt st1' ctx1 = Some (createRemixContext matcher rs1 loc1 ld1 ad1)"
    by (rule r1(5))
  have equal: "contextAt st2' ctx2 = contextAt st1' ctx1"
    using r1(5) r2(5) same by simp
  have window: "globals st1' = globals st1"
    by (rule r1(2))
  have frame: "take (length (heap st1)) (heap st1') = heap st1"
    using r1(1) by simp
  have fresh: "length (heap st1) \<le> routes (manifest ctx1)"
      "length (heap st1) \<le> routeModules ctx1"
      "routes (manifest ctx1) \<noteq> routeModules ctx1"
    using r1(3) r1(4) by simp_all
  have later: "routes (manifest ctx2) \<noteq> routes (manifest ctx1)
          \<and> routes (manifest ctx2) \<noteq> routeModules ctx1
          \<and> routeModules ctx2 \<noteq> routes (manifest ctx1)
          \<and> routeModules ctx2 \<noteq> routeModules ctx1
          \<and> contextAt st2' ctx1 = contextAt st1' ctx1" if "st2 = st1'"
  proof -
    from that r1(1) have len: "length (heap st2) = Suc (Suc (length (heap st1)))"
      by simp
    have kept: "contextAt st2' ctx1 = contextAt st1' ctx1"
      using r1(1) r1(3) r1(4) r2(1) that
      by (simp add: contextAt_def nth_append)
    from len r1(3) r1(4) r2(3) r2(4) kept show ?thesis by simp
  qed
  from value1 equal window frame fresh later show ?thesis by blast
qed

theorem createRemixContext_deterministic_witness:
  "contextAt
      (snd (createRemixContext_st (\<lambda>rs p. length rs) demoRoutes
              \<lparr> pathname = ''/'', search = '''', hash = '''' \<rparr> Map.empty None demoState))
      (fst (createRemixContext_st (\<lambda>rs p. length rs) demoRoutes
              \<lparr> pathname = ''/'', search = '''', hash = '''' \<rparr> Map.empty None demoState))
     = Some (createRemixContext (\<lambda>rs p. length rs) demoRoutes
              \<lparr> pathname = ''/'', search = '''', hash = '''' \<rparr> Map.empty None)
   \<and> contextAt
      (snd (createRemixContext_st (\<lambda>rs p. length rs) demoRoutes
              \<lparr> pathname = ''/'', search = '''', hash = '''' \<rparr> Map.empty None
              (snd (createRemixContext_st (\<lambda>rs p. length rs) demoRoutes
                 \<lparr> pathname = ''/'', search = '''', hash = '''' \<rparr> Map.empty None demoState))))
      (fst (createRemixContext_st (\<lambda>rs p. length rs) demoRoutes
              \<lparr> pathname = ''/'', search = '''', hash = '''' \<rparr> Map.empty None
              (snd (createRemixContext_st (\<lambda>rs p. length rs) demoRoutes
                 \<lparr> pathname = ''/'', search = '''', hash = '''' \<rparr> Map.empty None demoState))))
     = Some (createRemixContext (\<lambda>rs p. length rs) demoRoutes
              \<lparr> pathname = ''/'', search = '''', hash = '''' \<rparr> Map.empty None)
   \<and> routes (manifest
        (fst (createRemixContext_st (\<lambda>rs p. length rs) demoRoutes
              \<lparr> pathname = ''/'', search = '''', hash = '''' \<rparr> Map.empty None
              (snd (createRemixContext_st (\<lambda>rs p. length rs) demoRoutes
                 \<lparr> pathname = ''/'', search = '''', hash = '''' \<rparr> Map.empty None demoState)))))
     \<noteq> routes (manifest
        (fst (createRemixContext_st (\<lambda>rs p. length rs) demoRoutes
              \<lparr> pathname = ''/'', search = '''', hash = '''' \<rparr> Map.empty None demoState)))
   \<and> take (length (heap demoState))
        (heap (snd (createRemixContext_st (\<lambda>rs p. length rs) demoRoutes
              \<lparr> pathname = ''/'', search = '''', hash = '''' \<rparr> Map.empty None demoState)))
     = heap demoState"
proof -
  let ?loc = "\<lparr> pathname = ''/'', search = '''', hash = '''' \<rparr>"
  obtain ctx1 st1' where c1: "createRemixContext_st (\<lambda>rs p. length rs) demoRoutes ?loc
       Map.empty None demoState = (ctx1, st1')"
    by (cases "createRemixContext_st (\<lambda>rs p. length rs) demoRoutes ?loc
       Map.empty None demoState") auto
  obtain ctx2 st2' where c2: "createRemixContext_st (\<lambda>rs p. length rs) demoRoutes ?loc
       Map.empty None st1' = (ctx2, st2')"
    by (cases "createRemixContext_st (\<lambda>rs p. length rs) demoRoutes ?loc
       Map.empty None st1'") auto
  show ?thesis
    using c1 c2 createRemixContext_deterministic [OF c1 c2 refl refl refl refl]
    by simp
qed

section \<open>Stub component\<close>

text \<open>
  Claim C5. On the first render, an omitted \<open>initialEntries\<close> becomes the single entry
  \<open>"/"\<close>, an omitted \<open>initialLoaderData\<close> becomes the empty object, an omitted
  \<open>initialActionData\<close> stays absent, and the index is passed on as it is. With the history
  adapter of the specification, an omitted index starts the history at the last entry; for the
  entries \<open>"/a"\<close>, \<open>"/b"\<close> that is \<open>"/b"\<close>. The location rendered is the one this history
  exposes.
\<close>

theorem RemixStub_option_defaults:
  assumes hist: "createMemoryHistory ext = createMemoryHistory_spec"
      and body: "RemixStub ext rs props freshHooks w = (el, hs, w')"
  shows "(initialEntries props = None \<longrightarrow>
            navigator el = createMemoryHistory_spec [EntryPath ''/''] (initialIndex props))
       \<and> (initialLoaderData props = None \<longrightarrow> routeData (props_context el) = Map.empty)
       \<and> (initialActionData props = None \<longrightarrow> actionData (props_context el) = None)
       \<and> (initialIndex props = None \<and> hist_entries (navigator el) \<noteq> [] \<longrightarrow>
            currentEntry (navigator el) = Some (last (hist_entries (navigator el))))
       \<and> (initialEntries props = Some [EntryPath ''/a'', EntryPath ''/b''] \<and> initialIndex props = None \<longrightarrow>
            currentEntry (navigator el) = Some (EntryPath ''/b''))
       \<and> historyRef hs = Some (navigator el)
       \<and> props_location el = history_location ext (navigator el)"
proof -
  let ?es = "case initialEntries props of None \<Rightarrow> [EntryPath ''/''] | Some es \<Rightarrow> es"
  from body hist have nav: "navigator el = createMemoryHistory_spec ?es (initialIndex props)"
    by (auto simp: RemixStub_def Let_def freshHooks_def)
  from body have rd: "routeData (props_context el) =
      (case initialLoaderData props of None \<Rightarrow> Map.empty | Some d \<Rightarrow> d)"
    by (auto simp: RemixStub_def Let_def createRemixContext_def)
  from body have ad: "actionData (props_context el) = initialActionData props"
    by (auto simp: RemixStub_def Let_def createRemixContext_def)
  from body have href: "historyRef hs = Some (navigator el)"
    by (auto simp: RemixStub_def Let_def)
  from body have loc: "props_location el = history_location ext (navigator el)"
    by (auto simp: RemixStub_def Let_def freshHooks_def)
  have entries: "hist_entries (navigator el) = ?es"
    by (simp add: nav createMemoryHistory_spec_def)
  have last: "initialIndex props = None \<Longrightarrow> ?es \<noteq> [] \<Longrightarrow>
      currentEntry (navigator el) = Some (last ?es)"
    by (simp add: nav currentEntry_last)
  from nav have c1: "initialEntries props = None \<longrightarrow>
      navigator el = createMemoryHistory_spec [EntryPath ''/''] (initialIndex props)"
    by simp
  from rd have c2: "initialLoaderData props = None \<longrightarrow> routeData (props_context el) = Map.empty"
    by simp
  from ad have c3: "initialActionData props = None \<longrightarrow> actionData (props_context el) = None"
    by simp
  from last entries have c4: "initialIndex props = None \<and> hist_entries (navigator el) \<noteq> [] \<longrightarrow>
      currentEntry (navigator el) = Some (last (hist_entries (navigator el)))"
    by simp
  from last have c5: "initialEntries props = Some [EntryPath ''/a'', EntryPath ''/b'']
      \<and> initialIndex props = None \<longrightarrow> currentEntry (navigator el) = Some (EntryPath ''/b'')"
    by auto
  from c1 c2 c3 c4 c5 href loc show ?thesis by blast
qed

theorem RemixStub_option_defaults_witness:
  "createMemoryHistory demoExternals = createMemoryHistory_spec
   \<and> navigator (fst (RemixStub demoExternals demoRoutes noOptions freshHooks demoWindow))
       = \<lparr> hist_entries = [EntryPath ''/''], hist_index = 0 \<rparr>
   \<and> routeData (props_context (fst (RemixStub demoExternals demoRoutes noOptions freshHooks demoWindow)))
       = Map.empty
   \<and> actionData (props_context (fst (RemixStub demoExternals demoRoutes noOptions freshHooks demoWindow)))
       = None
   \<and> currentEntry (navigator (fst (RemixStub demoExternals demoRoutes noOptions freshHooks demoWindow)))
       = Some (EntryPath ''/'')
   \<and> currentEntry (navigator (fst (RemixStub demoExternals demoRoutes
          (noOptions\<lparr>initialEntries := Some [EntryPath ''/a'', EntryPath ''/b'']\<rparr>)
          freshHooks demoWindow)))
       = Some (EntryPath ''/b'')"
proof -
  have hist: "createMemoryHistory demoExternals = createMemoryHistory_spec"
    by (simp add: demoExternals_def)
  obtain el hs w' where b1: "RemixStub demoExternals demoRoutes noOptions freshHooks demoWindow = (el, hs, w')"
    by (cases "RemixStub demoExternals demoRoutes (noOptions :: unit RemixStubOptions) freshHooks demoWindow") auto
  obtain el2 hs2 w2 where b2: "RemixStub demoExternals demoRoutes
          (noOptions\<lparr>initialEntries := Some [EntryPath ''/a'', EntryPath ''/b'']\<rparr>)
          freshHooks demoWindow = (el2, hs2, w2)"
    by (cases "RemixStub demoExternals demoRoutes
          ((noOptions :: unit RemixStubOptions)\<lparr>initialEntries := Some [EntryPath ''/a'', EntryPath ''/b'']\<rparr>)
          freshHooks demoWindow") auto
  show ?thesis
    using hist RemixStub_option_defaults [OF hist b1] RemixStub_option_defaults [OF hist b2] b1 b2
    by (simp add: noOptions_def createMemoryHistory_spec_def currentEntry_def)
qed

text \<open>
  Claim C8. From the moment \<open>monkeyPatchFetch\<close> has stored a replacement, after any sequence
  of mounts, re-renders, navigations and unmounts the fetch slot holds a function created by
  \<open>monkeyPatchFetch\<close>, is different from the function captured as original, and still has
  that function captured beneath it.
\<close>

theorem replacement_never_restored:
  "isPatched (window_fetch (win (run ext es (s\<lparr>win := monkeyPatchFetch handler (win s)\<rparr>))))
   \<and> window_fetch (win (run ext es (s\<lparr>win := monkeyPatchFetch handler (win s)\<rparr>)))
       \<noteq> window_fetch (win s)
   \<and> window_fetch (win s)
       \<in> set (captured (window_fetch (win (run ext es (s\<lparr>win := monkeyPatchFetch handler (win s)\<rparr>)))))"
proof -
  let ?s1 = "s\<lparr>win := monkeyPatchFetch handler (win s)\<rparr>"
  have "window_fetch (win s) \<in> set (captured (window_fetch (win ?s1)))"
    by (simp add: monkeyPatchFetch_def)
  then have inv: "window_fetch (win s) \<in> set (captured (window_fetch (win (run ext es ?s1))))"
    by (rule run_captured)
  from inv have "isPatched (window_fetch (win (run ext es ?s1)))"
    by (rule captured_isPatched)
  moreover from inv have "window_fetch (win (run ext es ?s1)) \<noteq> window_fetch (win s)"
    using not_self_captured by metis
  ultimately show ?thesis using inv by simp
qed

theorem replacement_never_restored_witness:
  "isPatched (window_fetch (win (run demoExternals
      [Mount 0 demoRoutes noOptions,
       Navigate 0 \<lparr> update_action = Push, location = \<lparr> pathname = ''/a'', search = '''', hash = '''' \<rparr> \<rparr>,
       Unmount 0]
      (\<lparr> win = demoWindow, stubs = Map.empty \<rparr>\<lparr>win := monkeyPatchFetch demoHandler demoWindow\<rparr>))))"
  using replacement_never_restored [where ext = demoExternals
      and es = "[Mount 0 demoRoutes noOptions,
       Navigate 0 \<lparr> update_action = Push, location = \<lparr> pathname = ''/a'', search = '''', hash = '''' \<rparr> \<rparr>,
       Unmount 0]" and s = "\<lparr> win = demoWindow, stubs = Map.empty \<rparr>" and handler = demoHandler]
  by simp

end
